theory Spec2Isabelle
  imports Complex_Main "HOL-Library.AList" "HOL-Library.Monad_Syntax"
begin

section \<open>Numbers\<close>

text \<open>
  The fairness engine (\<^verbatim>\<open>server/fairness.ts\<close>) computes with JavaScript numbers. A finite
  number is modelled as a \<^typ>\<open>real\<close> (no rounding); counts are \<^typ>\<open>nat\<close>. The one
  operation of the engine that can leave the finite numbers is division: \<^verbatim>\<open>0 / 0\<close> is
  \<^verbatim>\<open>NaN\<close> and \<^verbatim>\<open>x / 0\<close> is an infinity. HOL's own \<open>x / 0 = 0\<close> would hide that, so the
  quotient of two variables is partial here: \<open>None\<close> stands for a result that is not a
  finite number. Divisions by the literals \<^verbatim>\<open>100\<close> and \<^verbatim>\<open>3\<close> are written with \<open>/\<close>.
\<close>

definition js_div :: "real \<Rightarrow> real \<Rightarrow> real option" where
  "js_div a b = (if b = 0 then None else Some (a / b))"

text \<open>
  \<^verbatim>\<open>Math.max(...xs)\<close> and \<^verbatim>\<open>Math.min(...xs)\<close>: with no argument they are \<^verbatim>\<open>-Infinity\<close> and
  \<^verbatim>\<open>Infinity\<close>, which are not finite numbers.
\<close>

definition Math_max :: "real list \<Rightarrow> real option" where
  "Math_max xs = (case xs of [] \<Rightarrow> None | x # rest \<Rightarrow> Some (foldl max x rest))"

definition Math_min :: "real list \<Rightarrow> real option" where
  "Math_min xs = (case xs of [] \<Rightarrow> None | x # rest \<Rightarrow> Some (foldl min x rest))"

text \<open>
  A nullable string column is a \<^typ>\<open>string option\<close>. JavaScript treats \<^verbatim>\<open>null\<close> and the
  empty string as falsy; \<^verbatim>\<open>s || d\<close> is \<open>d\<close> for a falsy \<open>s\<close>.
\<close>

definition falsy :: "string option \<Rightarrow> bool" where
  "falsy s = (case s of None \<Rightarrow> True | Some t \<Rightarrow> t = [])"

definition or_default :: "string option \<Rightarrow> string \<Rightarrow> string" where
  "or_default s d = (case s of None \<Rightarrow> d | Some t \<Rightarrow> if t = [] then d else t)"

section \<open>Data model\<close>

text \<open>
  Of the rows \<^verbatim>\<open>Analysis\<close> and \<^verbatim>\<open>Patient\<close> (\<^verbatim>\<open>shared/schema.ts\<close>) the engine reads only
  the fields below.
\<close>

record Analysis =
  classification :: string
  confidence :: real
  groundTruthLabel :: "string option"

record Patient =
  fitzpatrickType :: "string option"

record AnalysisWithPatient =
  analysis :: Analysis
  patient :: Patient

record ConfusionMatrix =
  truePositives :: nat
  falsePositives :: nat
  trueNegatives :: nat
  falseNegatives :: nat

record FairnessMetrics =
  fitzpatrickType :: string
  totalPredictions :: nat
  positivePredictions :: nat
  truePositives :: nat
  falsePositives :: nat
  trueNegatives :: nat
  falseNegatives :: nat
  positiveRate :: real
  truePositiveRate :: real
  falsePositiveRate :: real
  precision :: real
  recall :: real
  f1Score :: real
  brierScore :: real
  averageConfidence :: real
  accuracyAtConfidence :: real

record DisparityMetrics =
  overallDisparityScore :: real
  demographicParityGap :: real
  equalOpportunityGap :: real
  calibrationGap :: real
  parityAlert :: bool
  opportunityAlert :: bool
  calibrationAlert :: bool

text \<open>
  The element type of the \<^verbatim>\<open>predictions\<close> arrays. \<^verbatim>\<open>groundTruth\<close> is declared a string,
  but it is filled with \<^verbatim>\<open>item.analysis.groundTruthLabel!\<close>, and the non-null assertion
  is erased at run time: the value is whatever the column holds.
\<close>

record Prediction =
  classification :: string
  groundTruth :: "string option"
  confidence :: real

definition POSITIVE_CLASSIFICATIONS :: "string list" where
  "POSITIVE_CLASSIFICATIONS = [''Malignant'', ''Infection'']"

definition PARITY_THRESHOLD :: real where
  "PARITY_THRESHOLD = 15 / 100"

definition OPPORTUNITY_THRESHOLD :: real where
  "OPPORTUNITY_THRESHOLD = 15 / 100"

definition CALIBRATION_THRESHOLD :: real where
  "CALIBRATION_THRESHOLD = 10 / 100"

section \<open>Confusion matrix\<close>

definition isPositivePrediction :: "string \<Rightarrow> bool" where
  "isPositivePrediction c = (c \<in> set POSITIVE_CLASSIFICATIONS)"

definition isPositiveGroundTruth :: "string option \<Rightarrow> bool" where
  "isPositiveGroundTruth g = (case g of None \<Rightarrow> False | Some t \<Rightarrow> t \<in> set POSITIVE_CLASSIFICATIONS)"

text \<open>One round of the loop of \<^verbatim>\<open>calculateConfusionMatrix\<close> on the counters \<open>(tp, fp, tn, fn)\<close>.\<close>

definition count_prediction :: "nat \<times> nat \<times> nat \<times> nat \<Rightarrow> Prediction \<Rightarrow> nat \<times> nat \<times> nat \<times> nat" where
  "count_prediction counters p =
     (case counters of (tp, fp, tn, fn) \<Rightarrow>
        let predictedPositive = isPositivePrediction (Prediction.classification p);
            actualPositive = isPositiveGroundTruth (groundTruth p)
        in if predictedPositive \<and> actualPositive then (tp + 1, fp, tn, fn)
           else if predictedPositive \<and> \<not> actualPositive then (tp, fp + 1, tn, fn)
           else if \<not> predictedPositive \<and> \<not> actualPositive then (tp, fp, tn + 1, fn)
           else if \<not> predictedPositive \<and> actualPositive then (tp, fp, tn, fn + 1)
           else (tp, fp, tn, fn))"

definition calculateConfusionMatrix :: "Prediction list \<Rightarrow> ConfusionMatrix" where
  "calculateConfusionMatrix predictions =
     (case foldl count_prediction (0, 0, 0, 0) predictions of (tp, fp, tn, fn) \<Rightarrow>
        \<lparr>ConfusionMatrix.truePositives = tp, falsePositives = fp,
         trueNegatives = tn, falseNegatives = fn\<rparr>)"

section \<open>Brier score\<close>

definition squared_error :: "Prediction \<Rightarrow> real" where
  "squared_error pred =
     (let predictedProb = Prediction.confidence pred / 100;
          actualOutcome = (if Some (Prediction.classification pred) = groundTruth pred then 1 else 0)
      in (predictedProb - actualOutcome) ^ 2)"

definition calculateBrierScore :: "Prediction list \<Rightarrow> real option" where
  "calculateBrierScore predictions =
     (if length predictions = 0 then Some 0
      else let totalSquaredError = foldl (\<lambda>total pred. total + squared_error pred) 0 predictions
           in js_div totalSquaredError (real (length predictions)))"

section \<open>Per-group fairness metrics\<close>

text \<open>
  \<^verbatim>\<open>groupedByFitzpatrick\<close> is a JavaScript \<^verbatim>\<open>Map\<close>, which iterates in insertion order: an
  association list with distinct keys. \<^verbatim>\<open>has\<close> and \<^verbatim>\<open>get\<close> are \<^const>\<open>map_of\<close>;
  \<^verbatim>\<open>set\<close> is \<^const>\<open>AList.update\<close>, which replaces the value of a present key in place
  and appends an absent key.
\<close>

type_synonym groups = "(string \<times> AnalysisWithPatient list) list"

text \<open>
  One round of the first loop. \<^verbatim>\<open>get(fitzType)!.push(item)\<close> extends the array stored
  in the map; on a missing key \<^verbatim>\<open>get\<close> is \<^verbatim>\<open>undefined\<close> and the call throws a TypeError,
  which is \<open>None\<close> here.
\<close>

definition group_item :: "groups \<Rightarrow> AnalysisWithPatient \<Rightarrow> groups option" where
  "group_item grouped item =
     (if falsy (groundTruthLabel (analysis item)) then Some grouped
      else
        let fitzType = or_default (Patient.fitzpatrickType (patient item)) ''Unknown'';
            grouped1 = (if map_of grouped fitzType = None
                        then AList.update fitzType [] grouped else grouped)
        in case map_of grouped1 fitzType of
             None \<Rightarrow> None
           | Some items \<Rightarrow> Some (AList.update fitzType (items @ [item]) grouped1))"

fun group_items :: "groups \<Rightarrow> AnalysisWithPatient list \<Rightarrow> groups option" where
  "group_items grouped [] = Some grouped"
| "group_items grouped (item # rest) =
     (case group_item grouped item of
        None \<Rightarrow> None
      | Some grouped1 \<Rightarrow> group_items grouped1 rest)"

text \<open>
  The two expressions of the first loop that decide where a record goes:
  \<^verbatim>\<open>!item.analysis.groundTruthLabel\<close> (negated) and
  \<^verbatim>\<open>item.patient.fitzpatrickType || "Unknown"\<close>.
\<close>

definition has_ground_truth :: "AnalysisWithPatient \<Rightarrow> bool" where
  "has_ground_truth item = (\<not> falsy (groundTruthLabel (analysis item)))"

definition fitzType_of :: "AnalysisWithPatient \<Rightarrow> string" where
  "fitzType_of item = or_default (Patient.fitzpatrickType (patient item)) ''Unknown''"

definition to_prediction :: "AnalysisWithPatient \<Rightarrow> Prediction" where
  "to_prediction item =
     \<lparr>Prediction.classification = Analysis.classification (analysis item),
      groundTruth = groundTruthLabel (analysis item),
      confidence = Analysis.confidence (analysis item)\<rparr>"

text \<open>
  The derived rates of the second loop, one definition for each \<^verbatim>\<open>const\<close> of its body,
  with the guard of the source. \<^verbatim>\<open>averageConfidence\<close> has no guard.
\<close>

definition positiveRate_of :: "nat \<Rightarrow> nat \<Rightarrow> real option" where
  "positiveRate_of positivePredictions totalPredictions =
     (if totalPredictions > 0 then js_div (real positivePredictions) (real totalPredictions)
      else Some 0)"
  for positivePredictions totalPredictions

definition truePositiveRate_of :: "nat \<Rightarrow> nat \<Rightarrow> real option" where
  "truePositiveRate_of truePositives falseNegatives =
     (if truePositives + falseNegatives > 0
      then js_div (real truePositives) (real (truePositives + falseNegatives))
      else Some 0)"
  for truePositives falseNegatives

definition falsePositiveRate_of :: "nat \<Rightarrow> nat \<Rightarrow> real option" where
  "falsePositiveRate_of falsePositives trueNegatives =
     (if falsePositives + trueNegatives > 0
      then js_div (real falsePositives) (real (falsePositives + trueNegatives))
      else Some 0)"
  for falsePositives trueNegatives

definition precision_of :: "nat \<Rightarrow> nat \<Rightarrow> real option" where
  "precision_of truePositives falsePositives =
     (if truePositives + falsePositives > 0
      then js_div (real truePositives) (real (truePositives + falsePositives))
      else Some 0)"
  for truePositives falsePositives

definition f1Score_of :: "real \<Rightarrow> real \<Rightarrow> real option" where
  "f1Score_of precision recall =
     (if precision + recall > 0 then js_div (2 * precision * recall) (precision + recall)
      else Some 0)"
  for precision recall

definition averageConfidence_of :: "Prediction list \<Rightarrow> real option" where
  "averageConfidence_of predictions =
     js_div (foldl (\<lambda>sum p. sum + Prediction.confidence p) 0 predictions)
            (real (length predictions))"

definition accuracyAtConfidence_of :: "nat \<Rightarrow> nat \<Rightarrow> real option" where
  "accuracyAtConfidence_of correctPredictions totalPredictions =
     (if totalPredictions > 0 then js_div (real correctPredictions) (real totalPredictions)
      else Some 0)"
  for correctPredictions totalPredictions

text \<open>
  The body of the second loop, for one entry of the map. It is \<open>None\<close> when a field of
  the record would not be a finite number.
\<close>

definition group_metrics :: "string \<times> AnalysisWithPatient list \<Rightarrow> FairnessMetrics option" where
  "group_metrics entry =
     (let fitzpatrickType = fst entry;
          items = snd entry;
          predictions = map to_prediction items;
          confusionMatrix = calculateConfusionMatrix predictions;
          truePositives = ConfusionMatrix.truePositives confusionMatrix;
          falsePositives = ConfusionMatrix.falsePositives confusionMatrix;
          trueNegatives = ConfusionMatrix.trueNegatives confusionMatrix;
          falseNegatives = ConfusionMatrix.falseNegatives confusionMatrix;
          totalPredictions = length items;
          positivePredictions =
            length (filter (\<lambda>item. isPositivePrediction (Analysis.classification (analysis item)))
                      items);
          correctPredictions =
            length (filter (\<lambda>item. Some (Analysis.classification (analysis item))
                                     = groundTruthLabel (analysis item)) items)
      in do {
        positiveRate \<leftarrow> positiveRate_of positivePredictions totalPredictions;
        truePositiveRate \<leftarrow> truePositiveRate_of truePositives falseNegatives;
        falsePositiveRate \<leftarrow> falsePositiveRate_of falsePositives trueNegatives;
        precision \<leftarrow> precision_of truePositives falsePositives;
        let recall = truePositiveRate;
        f1Score \<leftarrow> f1Score_of precision recall;
        brierScore \<leftarrow> calculateBrierScore predictions;
        averageConfidence \<leftarrow> averageConfidence_of predictions;
        accuracyAtConfidence \<leftarrow> accuracyAtConfidence_of correctPredictions totalPredictions;
        Some \<lparr>FairnessMetrics.fitzpatrickType = fitzpatrickType,
              totalPredictions = totalPredictions,
              positivePredictions = positivePredictions,
              truePositives = truePositives,
              falsePositives = falsePositives,
              trueNegatives = trueNegatives,
              falseNegatives = falseNegatives,
              positiveRate = positiveRate,
              truePositiveRate = truePositiveRate,
              falsePositiveRate = falsePositiveRate,
              precision = precision,
              recall = recall,
              f1Score = f1Score,
              brierScore = brierScore,
              averageConfidence = averageConfidence,
              accuracyAtConfidence = accuracyAtConfidence\<rparr>
      })"

text \<open>
  The second loop, and the whole function. The result is \<open>None\<close> when the source would
  throw or would return a record with a field that is not a finite number.
\<close>

fun metrics_of_groups :: "groups \<Rightarrow> FairnessMetrics list option" where
  "metrics_of_groups [] = Some []"
| "metrics_of_groups (entry # rest) =
     do {
       m \<leftarrow> group_metrics entry;
       ms \<leftarrow> metrics_of_groups rest;
       Some (m # ms)
     }"

definition calculateFairnessMetricsPerGroup :: "AnalysisWithPatient list \<Rightarrow> FairnessMetrics list option" where
  "calculateFairnessMetricsPerGroup analysesWithPatients =
     do {
       groupedByFitzpatrick \<leftarrow> group_items [] analysesWithPatients;
       metrics_of_groups groupedByFitzpatrick
     }"

section \<open>Disparity across groups\<close>

text \<open>
  \<open>None\<close> stands for a summary with a gap that is not a finite number, which is what
  \<^verbatim>\<open>Math.max\<close> and \<^verbatim>\<open>Math.min\<close> of no argument would give.
\<close>

definition calculateDisparityMetrics :: "FairnessMetrics list \<Rightarrow> DisparityMetrics option" where
  "calculateDisparityMetrics metrics =
     (if length metrics = 0 then
        Some \<lparr>overallDisparityScore = 0, demographicParityGap = 0, equalOpportunityGap = 0,
              calibrationGap = 0, parityAlert = False, opportunityAlert = False,
              calibrationAlert = False\<rparr>
      else
        let positiveRates = map positiveRate metrics;
            truePositiveRates = map truePositiveRate metrics;
            brierScores = map brierScore metrics
        in do {
          maxPositiveRate \<leftarrow> Math_max positiveRates;
          minPositiveRate \<leftarrow> Math_min positiveRates;
          let demographicParityGap = maxPositiveRate - minPositiveRate;
          maxTruePositiveRate \<leftarrow> Math_max truePositiveRates;
          minTruePositiveRate \<leftarrow> Math_min truePositiveRates;
          let equalOpportunityGap = maxTruePositiveRate - minTruePositiveRate;
          maxBrierScore \<leftarrow> Math_max brierScores;
          minBrierScore \<leftarrow> Math_min brierScores;
          let calibrationGap = maxBrierScore - minBrierScore;
          let overallDisparityScore =
                (demographicParityGap + equalOpportunityGap + calibrationGap) / 3;
          let parityAlert = (demographicParityGap > PARITY_THRESHOLD);
          let opportunityAlert = (equalOpportunityGap > OPPORTUNITY_THRESHOLD);
          let calibrationAlert = (calibrationGap > CALIBRATION_THRESHOLD);
          Some \<lparr>overallDisparityScore = overallDisparityScore,
                demographicParityGap = demographicParityGap,
                equalOpportunityGap = equalOpportunityGap,
                calibrationGap = calibrationGap,
                parityAlert = parityAlert,
                opportunityAlert = opportunityAlert,
                calibrationAlert = calibrationAlert\<rparr>
        })"

section \<open>Example data\<close>

text \<open>
  Concrete inputs for the instances below. \<open>example_record\<close> is one labelled analysis with
  its patient. \<open>example_group key n pos\<close> is the metrics record of a group of \<open>n\<close>
  records, all classified correctly with confidence 90, \<open>pos\<close> of them positive
  (\<open>0 < pos < n\<close>).
\<close>

abbreviation example_record ::
  "string option \<Rightarrow> string \<Rightarrow> real \<Rightarrow> string option \<Rightarrow> AnalysisWithPatient" where
  "example_record fitz cls conf truth \<equiv>
     \<lparr>analysis = \<lparr>Analysis.classification = cls, confidence = conf, groundTruthLabel = truth\<rparr>,
      patient = \<lparr>Patient.fitzpatrickType = fitz\<rparr>\<rparr>"

abbreviation example_group :: "string \<Rightarrow> nat \<Rightarrow> nat \<Rightarrow> FairnessMetrics" where
  "example_group key n pos \<equiv>
     \<lparr>FairnessMetrics.fitzpatrickType = key, totalPredictions = n, positivePredictions = pos,
      truePositives = pos, falsePositives = 0, trueNegatives = n - pos, falseNegatives = 0,
      positiveRate = real pos / real n, truePositiveRate = 1, falsePositiveRate = 0,
      precision = 1, recall = 1, f1Score = 1, brierScore = 1 / 100, averageConfidence = 90,
      accuracyAtConfidence = 1\<rparr>"

section \<open>Auxiliary lemmas\<close>

subsection \<open>Maximum and minimum of a list\<close>

lemma foldl_max_Max: "foldl max (x::real) xs = Max (set (x # xs))"
proof -
  have "(\<lambda>y s. max s y) = (max :: real \<Rightarrow> real \<Rightarrow> real)"
    by (intro ext) (rule max.commute)
  then have "foldl max x xs = fold max xs x"
    by (simp add: foldl_conv_fold)
  then show ?thesis
    by (simp only: Max.set_eq_fold)
qed

lemma foldl_min_Min: "foldl min (x::real) xs = Min (set (x # xs))"
proof -
  have "(\<lambda>y s. min s y) = (min :: real \<Rightarrow> real \<Rightarrow> real)"
    by (intro ext) (rule min.commute)
  then have "foldl min x xs = fold min xs x"
    by (simp add: foldl_conv_fold)
  then show ?thesis
    by (simp only: Min.set_eq_fold)
qed

lemma Math_max_nonempty: "xs \<noteq> [] \<Longrightarrow> Math_max xs = Some (Max (set xs))"
  unfolding Math_max_def using foldl_max_Max by (cases xs) simp_all

lemma Math_min_nonempty: "xs \<noteq> [] \<Longrightarrow> Math_min xs = Some (Min (set xs))"
  unfolding Math_min_def using foldl_min_Min by (cases xs) simp_all

lemma disparity_nonempty:
  assumes "metrics \<noteq> []"
  shows "calculateDisparityMetrics metrics =
    Some \<lparr>overallDisparityScore =
            ((Max (set (map positiveRate metrics)) - Min (set (map positiveRate metrics)))
             + (Max (set (map truePositiveRate metrics)) - Min (set (map truePositiveRate metrics)))
             + (Max (set (map brierScore metrics)) - Min (set (map brierScore metrics)))) / 3,
          demographicParityGap =
            Max (set (map positiveRate metrics)) - Min (set (map positiveRate metrics)),
          equalOpportunityGap =
            Max (set (map truePositiveRate metrics)) - Min (set (map truePositiveRate metrics)),
          calibrationGap =
            Max (set (map brierScore metrics)) - Min (set (map brierScore metrics)),
          parityAlert =
            (Max (set (map positiveRate metrics)) - Min (set (map positiveRate metrics))
               > PARITY_THRESHOLD),
          opportunityAlert =
            (Max (set (map truePositiveRate metrics)) - Min (set (map truePositiveRate metrics))
               > OPPORTUNITY_THRESHOLD),
          calibrationAlert =
            (Max (set (map brierScore metrics)) - Min (set (map brierScore metrics))
               > CALIBRATION_THRESHOLD)\<rparr>"
  using assms
  by (simp add: calculateDisparityMetrics_def Math_max_nonempty Math_min_nonempty Let_def)

subsection \<open>Counting and summing\<close>

lemma foldl_count_prediction:
  "foldl count_prediction (tp, fp, tn, fn) ps =
     (tp + length (filter (\<lambda>p. isPositivePrediction (Prediction.classification p)
                               \<and> isPositiveGroundTruth (groundTruth p)) ps),
      fp + length (filter (\<lambda>p. isPositivePrediction (Prediction.classification p)
                               \<and> \<not> isPositiveGroundTruth (groundTruth p)) ps),
      tn + length (filter (\<lambda>p. \<not> isPositivePrediction (Prediction.classification p)
                               \<and> \<not> isPositiveGroundTruth (groundTruth p)) ps),
      fn + length (filter (\<lambda>p. \<not> isPositivePrediction (Prediction.classification p)
                               \<and> isPositiveGroundTruth (groundTruth p)) ps))"
  by (induction ps arbitrary: tp fp tn fn) (simp_all add: count_prediction_def)

lemma confusion_matrix_counts:
  "calculateConfusionMatrix ps =
     \<lparr>ConfusionMatrix.truePositives =
        length (filter (\<lambda>p. isPositivePrediction (Prediction.classification p)
                               \<and> isPositiveGroundTruth (groundTruth p)) ps),
      falsePositives =
        length (filter (\<lambda>p. isPositivePrediction (Prediction.classification p)
                               \<and> \<not> isPositiveGroundTruth (groundTruth p)) ps),
      trueNegatives =
        length (filter (\<lambda>p. \<not> isPositivePrediction (Prediction.classification p)
                               \<and> \<not> isPositiveGroundTruth (groundTruth p)) ps),
      falseNegatives =
        length (filter (\<lambda>p. \<not> isPositivePrediction (Prediction.classification p)
                               \<and> isPositiveGroundTruth (groundTruth p)) ps)\<rparr>"
  by (simp add: calculateConfusionMatrix_def foldl_count_prediction)

lemma four_way_split:
  "length (filter (\<lambda>x. P x \<and> Q x) xs) + length (filter (\<lambda>x. P x \<and> \<not> Q x) xs)
     + length (filter (\<lambda>x. \<not> P x \<and> \<not> Q x) xs) + length (filter (\<lambda>x. \<not> P x \<and> Q x) xs)
   = length xs"
  by (induction xs) auto

lemma positive_split:
  "length (filter (\<lambda>x. P x \<and> Q x) xs) + length (filter (\<lambda>x. P x \<and> \<not> Q x) xs)
   = length (filter P xs)"
  by (induction xs) auto

lemma foldl_add_sum_list:
  "foldl (\<lambda>total x. total + f x) (a::real) xs = a + sum_list (map f xs)"
  by (induction xs arbitrary: a) simp_all

lemma sum_list_bounds:
  "(\<forall>x\<in>set xs. 0 \<le> f x \<and> f x \<le> (1::real)) \<Longrightarrow>
     0 \<le> sum_list (map f xs) \<and> sum_list (map f xs) \<le> real (length xs)"
  by (induction xs) auto

lemma count_by_distinct_keys:
  "distinct ks \<Longrightarrow>
     sum_list (map (\<lambda>k. length (filter (\<lambda>x. Q x \<and> f x = k) xs)) ks)
       = length (filter (\<lambda>x. Q x \<and> f x \<in> set ks) xs)"
proof (induction ks)
  case Nil
  then show ?case by simp
next
  case (Cons k ks)
  have "length (filter (\<lambda>x. Q x \<and> f x = k) xs)
          + length (filter (\<lambda>x. Q x \<and> f x \<in> set ks) xs)
        = length (filter (\<lambda>x. Q x \<and> f x \<in> set (k # ks)) xs)"
    using Cons.prems by (induction xs) auto
  with Cons show ?case by simp
qed

lemma list_all2_in_right:
  "list_all2 P xs ys \<Longrightarrow> y \<in> set ys \<Longrightarrow> \<exists>x\<in>set xs. P x y"
  by (induction rule: list_all2_induct) auto

lemma list_all2_map_eq:
  "list_all2 P xs ys \<Longrightarrow> (\<And>x y. P x y \<Longrightarrow> f y = h x) \<Longrightarrow> map f ys = map h xs"
  by (induction rule: list_all2_induct) auto

subsection \<open>The guarded rates in closed form\<close>

text \<open>
  Every guarded quotient is a finite number; \<^verbatim>\<open>averageConfidence\<close> is one exactly on a
  non-empty group.
\<close>

lemma positiveRate_of_eq:
  "positiveRate_of p n = Some (if 0 < n then real p / real n else 0)"
  by (simp add: positiveRate_of_def js_div_def)

lemma truePositiveRate_of_eq:
  "truePositiveRate_of tp fn = Some (if 0 < tp + fn then real tp / real (tp + fn) else 0)"
  by (simp add: truePositiveRate_of_def js_div_def)

lemma falsePositiveRate_of_eq:
  "falsePositiveRate_of fp tn = Some (if 0 < fp + tn then real fp / real (fp + tn) else 0)"
  by (simp add: falsePositiveRate_of_def js_div_def)

lemma precision_of_eq:
  "precision_of tp fp = Some (if 0 < tp + fp then real tp / real (tp + fp) else 0)"
  by (simp add: precision_of_def js_div_def)

lemma f1Score_of_eq:
  "f1Score_of p r = Some (if 0 < p + r then 2 * p * r / (p + r) else 0)"
  by (simp add: f1Score_of_def js_div_def)

lemma accuracyAtConfidence_of_eq:
  "accuracyAtConfidence_of c n = Some (if 0 < n then real c / real n else 0)"
  by (simp add: accuracyAtConfidence_of_def js_div_def)

lemma calculateBrierScore_eq:
  "calculateBrierScore ps =
     Some (if ps = [] then 0 else sum_list (map squared_error ps) / real (length ps))"
  by (simp add: calculateBrierScore_def js_div_def foldl_add_sum_list)

lemma averageConfidence_of_eq:
  "averageConfidence_of ps =
     (if ps = [] then None
      else Some (sum_list (map Prediction.confidence ps) / real (length ps)))"
  by (simp add: averageConfidence_of_def js_div_def foldl_add_sum_list)

lemma brier_nonempty:
  "ps \<noteq> [] \<Longrightarrow>
     calculateBrierScore ps = Some (sum_list (map squared_error ps) / real (length ps))"
  by (simp add: calculateBrierScore_def js_div_def foldl_add_sum_list)

lemma squared_error_bounds:
  assumes "0 \<le> Prediction.confidence p" "Prediction.confidence p \<le> 100"
  shows "0 \<le> squared_error p \<and> squared_error p \<le> 1"
proof -
  define x where "x = Prediction.confidence p / 100"
  have x: "0 \<le> x" "x \<le> 1" using assms by (simp_all add: x_def)
  have "x ^ 2 \<le> 1" using x by (simp add: power_le_one)
  moreover have "(x - 1) ^ 2 \<le> 1"
  proof -
    have "(x - 1) ^ 2 = (1 - x) ^ 2" by (simp add: power2_commute)
    also have "\<dots> \<le> 1" using x by (simp add: power_le_one)
    finally show ?thesis .
  qed
  ultimately show ?thesis
    by (simp add: squared_error_def x_def)
qed

subsection \<open>Grouping\<close>

text \<open>
  The first loop keeps the keys of the map distinct, never stores an empty array, and
  after the records \<open>xs\<close> the array under a key \<open>k\<close> holds, in order, the records of
  \<open>xs\<close> that have a ground truth and whose group key is \<open>k\<close>.
\<close>

lemma group_item_skip: "\<not> has_ground_truth item \<Longrightarrow> group_item g item = Some g"
  by (simp add: group_item_def has_ground_truth_def)

lemma group_item_add:
  assumes "has_ground_truth item"
  shows "group_item g item =
     Some (AList.update (fitzType_of item)
            ((case map_of g (fitzType_of item) of None \<Rightarrow> [] | Some items \<Rightarrow> items) @ [item]) g)"
proof (cases "map_of g (fitzType_of item)")
  case None
  then show ?thesis
    using assms
    by (simp add: group_item_def has_ground_truth_def fitzType_of_def Let_def AList.update_conv')
next
  case (Some items)
  then show ?thesis
    using assms
    by (simp add: group_item_def has_ground_truth_def fitzType_of_def Let_def)
qed

lemma group_items_invariant:
  assumes "distinct (map fst g)"
    and "\<forall>k. map_of g k \<noteq> Some []"
    and "\<forall>k. (case map_of g k of None \<Rightarrow> [] | Some items \<Rightarrow> items)
              = filter (\<lambda>x. has_ground_truth x \<and> fitzType_of x = k) xs"
  shows "\<exists>g'. group_items g ys = Some g' \<and> distinct (map fst g')
           \<and> (\<forall>k. map_of g' k \<noteq> Some [])
           \<and> (\<forall>k. (case map_of g' k of None \<Rightarrow> [] | Some items \<Rightarrow> items)
                  = filter (\<lambda>x. has_ground_truth x \<and> fitzType_of x = k) (xs @ ys))"
  using assms
proof (induction ys arbitrary: g xs)
  case Nil
  then show ?case by simp
next
  case (Cons y ys)
  show ?case
  proof (cases "has_ground_truth y")
    case False
    have "\<forall>k. (case map_of g k of None \<Rightarrow> [] | Some items \<Rightarrow> items)
              = filter (\<lambda>x. has_ground_truth x \<and> fitzType_of x = k) (xs @ [y])"
      using Cons.prems(3) False by simp
    from Cons.IH [OF Cons.prems(1) Cons.prems(2) this] show ?thesis
      using False by (simp add: group_item_skip)
  next
    case True
    let ?k = "fitzType_of y"
    let ?g = "AList.update ?k
            ((case map_of g ?k of None \<Rightarrow> [] | Some items \<Rightarrow> items) @ [y]) g"
    have step: "group_item g y = Some ?g"
      using True by (rule group_item_add)
    have d: "distinct (map fst ?g)"
      using Cons.prems(1) by (rule AList.distinct_update)
    have ne: "\<forall>k. map_of ?g k \<noteq> Some []"
      using Cons.prems(2) by (simp add: AList.update_conv')
    have m: "\<forall>k. (case map_of ?g k of None \<Rightarrow> [] | Some items \<Rightarrow> items)
              = filter (\<lambda>x. has_ground_truth x \<and> fitzType_of x = k) (xs @ [y])"
      using Cons.prems(3) True by (simp add: AList.update_conv')
    from Cons.IH [OF d ne m] show ?thesis
      using step by simp
  qed
qed

lemma group_items_result:
  "\<exists>g. group_items [] xs = Some g \<and> distinct (map fst g)
       \<and> (\<forall>k. map_of g k \<noteq> Some [])
       \<and> (\<forall>k. (case map_of g k of None \<Rightarrow> [] | Some items \<Rightarrow> items)
              = filter (\<lambda>x. has_ground_truth x \<and> fitzType_of x = k) xs)"
  using group_items_invariant [of "[]" "[]" xs] by simp

lemma group_items_filter:
  "group_items g (filter has_ground_truth xs) = group_items g xs"
proof (induction xs arbitrary: g)
  case Nil
  show ?case by simp
next
  case (Cons x xs)
  show ?case
  proof (cases "has_ground_truth x")
    case True
    then show ?thesis
      using Cons.IH by (cases "group_item g x") simp_all
  next
    case False
    then show ?thesis
      using Cons.IH by (simp add: group_item_skip)
  qed
qed

lemma entries_nonempty:
  assumes "distinct (map fst g)" and "\<forall>k. map_of g k \<noteq> Some []"
  shows "\<forall>e\<in>set g. snd e \<noteq> []"
proof
  fix e assume "e \<in> set g"
  then have "map_of g (fst e) = Some (snd e)"
    using map_of_is_SomeI [OF assms(1), of "fst e" "snd e"] by simp
  with assms(2) show "snd e \<noteq> []" by metis
qed

subsection \<open>One record of metrics for each group\<close>

text \<open>
  The body of the second loop gives no record of finite numbers for an empty group (its
  \<^verbatim>\<open>averageConfidence\<close> is \<^verbatim>\<open>0 / 0\<close>), and a record for every other group.
\<close>

lemma group_metrics_empty: "group_metrics (k, []) = None"
  by (simp add: group_metrics_def Let_def averageConfidence_of_eq positiveRate_of_eq
      truePositiveRate_of_eq falsePositiveRate_of_eq precision_of_eq f1Score_of_eq
      accuracyAtConfidence_of_eq calculateBrierScore_eq)

lemma group_metrics_nonempty:
  "items \<noteq> [] \<Longrightarrow> \<exists>m. group_metrics (k, items) = Some m"
  by (simp add: group_metrics_def Let_def averageConfidence_of_eq positiveRate_of_eq
      truePositiveRate_of_eq falsePositiveRate_of_eq precision_of_eq f1Score_of_eq
      accuracyAtConfidence_of_eq calculateBrierScore_eq)

lemma group_metrics_fields:
  assumes "group_metrics (k, items) = Some m"
  shows "FairnessMetrics.fitzpatrickType m = k"
    and "totalPredictions m = length items"
    and "positivePredictions m =
           length (filter (\<lambda>item. isPositivePrediction (Analysis.classification (analysis item))) items)"
    and "FairnessMetrics.truePositives m =
           ConfusionMatrix.truePositives (calculateConfusionMatrix (map to_prediction items))"
    and "FairnessMetrics.falsePositives m =
           ConfusionMatrix.falsePositives (calculateConfusionMatrix (map to_prediction items))"
    and "FairnessMetrics.trueNegatives m =
           ConfusionMatrix.trueNegatives (calculateConfusionMatrix (map to_prediction items))"
    and "FairnessMetrics.falseNegatives m =
           ConfusionMatrix.falseNegatives (calculateConfusionMatrix (map to_prediction items))"
    and "positiveRate_of (positivePredictions m) (totalPredictions m) = Some (positiveRate m)"
    and "truePositiveRate_of (FairnessMetrics.truePositives m) (FairnessMetrics.falseNegatives m)
           = Some (truePositiveRate m)"
    and "falsePositiveRate_of (FairnessMetrics.falsePositives m) (FairnessMetrics.trueNegatives m)
           = Some (falsePositiveRate m)"
    and "precision_of (FairnessMetrics.truePositives m) (FairnessMetrics.falsePositives m)
           = Some (precision m)"
    and "recall m = truePositiveRate m"
    and "f1Score_of (precision m) (recall m) = Some (f1Score m)"
    and "calculateBrierScore (map to_prediction items) = Some (brierScore m)"
    and "averageConfidence_of (map to_prediction items) = Some (averageConfidence m)"
    and "accuracyAtConfidence_of
           (length (filter (\<lambda>item. Some (Analysis.classification (analysis item))
                                       = groundTruthLabel (analysis item)) items))
           (totalPredictions m) = Some (accuracyAtConfidence m)"
  using assms
  by (auto simp add: group_metrics_def Let_def split: Option.bind_splits)

lemma metrics_of_groups_Some:
  assumes "\<forall>e\<in>set g. snd e \<noteq> []"
  shows "\<exists>ms. metrics_of_groups g = Some ms
            \<and> list_all2 (\<lambda>e m. group_metrics e = Some m) g ms"
  using assms
proof (induction g)
  case Nil
  then show ?case by simp
next
  case (Cons e g)
  obtain k items where e: "e = (k, items)" by (cases e)
  with Cons.prems have "items \<noteq> []" by simp
  then obtain m where m: "group_metrics e = Some m"
    using group_metrics_nonempty e by blast
  from Cons obtain ms where "metrics_of_groups g = Some ms"
    "list_all2 (\<lambda>e m. group_metrics e = Some m) g ms" by auto
  with m show ?case by simp
qed

lemma positive_count_map:
  "length (filter (\<lambda>p. isPositivePrediction (Prediction.classification p)) (map to_prediction items))
     = length (filter (\<lambda>item. isPositivePrediction (Analysis.classification (analysis item))) items)"
  by (induction items) (simp_all add: to_prediction_def)

lemma group_metrics_positive_split:
  assumes "group_metrics (k, items) = Some m"
  shows "positivePredictions m = FairnessMetrics.truePositives m + FairnessMetrics.falsePositives m"
proof -
  have "FairnessMetrics.truePositives m + FairnessMetrics.falsePositives m
          = length (filter (\<lambda>p. isPositivePrediction (Prediction.classification p))
                      (map to_prediction items))"
    using group_metrics_fields(4,5) [OF assms]
    by (simp only: confusion_matrix_counts ConfusionMatrix.simps positive_split)
  then show ?thesis
    using group_metrics_fields(3) [OF assms] by (simp only: positive_count_map)
qed

text \<open>
  What \<^verbatim>\<open>calculateFairnessMetricsPerGroup\<close> returns, in terms of the grouped records:
  it always returns a list, one record for each entry of the map.
\<close>

lemma fairness_metrics_result:
  "\<exists>g ms. calculateFairnessMetricsPerGroup xs = Some ms
      \<and> distinct (map fst g)
      \<and> list_all2 (\<lambda>e m. group_metrics e = Some m) g ms
      \<and> (\<forall>e\<in>set g. snd e \<noteq> []
            \<and> snd e = filter (\<lambda>x. has_ground_truth x \<and> fitzType_of x = fst e) xs)
      \<and> fst ` set g = fitzType_of ` {x \<in> set xs. has_ground_truth x}"
proof -
  obtain g where g: "group_items [] xs = Some g" "distinct (map fst g)"
      "\<forall>k. map_of g k \<noteq> Some []"
      "\<forall>k. (case map_of g k of None \<Rightarrow> [] | Some items \<Rightarrow> items)
              = filter (\<lambda>x. has_ground_truth x \<and> fitzType_of x = k) xs"
    using group_items_result by blast
  have ne: "\<forall>e\<in>set g. snd e \<noteq> []"
    using g(2,3) by (rule entries_nonempty)
  then obtain ms where ms: "metrics_of_groups g = Some ms"
      "list_all2 (\<lambda>e m. group_metrics e = Some m) g ms"
    using metrics_of_groups_Some by blast
  have bucket: "snd e = filter (\<lambda>x. has_ground_truth x \<and> fitzType_of x = fst e) xs"
    if "e \<in> set g" for e
  proof -
    have "map_of g (fst e) = Some (snd e)"
      using that map_of_is_SomeI [OF g(2), of "fst e" "snd e"] by simp
    with g(4) [rule_format, of "fst e"] show ?thesis by simp
  qed
  have keys: "fst ` set g = fitzType_of ` {x \<in> set xs. has_ground_truth x}"
  proof (intro set_eqI iffI)
    fix k assume "k \<in> fst ` set g"
    then obtain e where e: "e \<in> set g" "fst e = k" by auto
    with ne bucket have "filter (\<lambda>x. has_ground_truth x \<and> fitzType_of x = k) xs \<noteq> []"
      by metis
    then obtain x where "x \<in> set xs" "has_ground_truth x" "fitzType_of x = k"
      by (auto simp: filter_empty_conv)
    then show "k \<in> fitzType_of ` {x \<in> set xs. has_ground_truth x}" by auto
  next
    fix k assume "k \<in> fitzType_of ` {x \<in> set xs. has_ground_truth x}"
    then have "filter (\<lambda>x. has_ground_truth x \<and> fitzType_of x = k) xs \<noteq> []"
      by (auto simp: filter_empty_conv)
    with g(4) [rule_format, of k] have "map_of g k \<noteq> None"
      by (cases "map_of g k") simp_all
    then show "k \<in> fst ` set g"
      by (simp add: map_of_eq_None_iff)
  qed
  show ?thesis
    using g(1,2) ms ne bucket keys
    by (intro exI [of _ g] exI [of _ ms]) (simp add: calculateFairnessMetricsPerGroup_def)
qed

subsection \<open>Unfolding for concrete inputs\<close>

lemmas eval_defs = calculateFairnessMetricsPerGroup_def group_item_def falsy_def or_default_def
  Let_def group_metrics_def to_prediction_def calculateConfusionMatrix_def count_prediction_def
  isPositivePrediction_def isPositiveGroundTruth_def POSITIVE_CLASSIFICATIONS_def
  positiveRate_of_def truePositiveRate_of_def falsePositiveRate_of_def precision_of_def
  f1Score_of_def accuracyAtConfidence_of_def averageConfidence_of_def js_div_def
  calculateBrierScore_def squared_error_def

section \<open>Confusion matrix (C4)\<close>

text \<open>
  Claim C4. For every list of predictions, \<^verbatim>\<open>calculateConfusionMatrix\<close> counts each
  record in exactly one of \<open>tp\<close>, \<open>fp\<close>, \<open>tn\<close>, \<open>fn\<close> by the 2x2 truth table over
  membership of its classification and of its ground truth in the positive set
  \<open>{Malignant, Infection}\<close>; every other label (and a missing one) is not positive. So
  the four counts add up to the number of records, and the empty list gives four zeros.
\<close>

theorem confusion_matrix_truth_table:
  "ConfusionMatrix.truePositives (calculateConfusionMatrix ps) =
        length (filter (\<lambda>p. isPositivePrediction (Prediction.classification p)
                               \<and> isPositiveGroundTruth (groundTruth p)) ps)
   \<and> ConfusionMatrix.falsePositives (calculateConfusionMatrix ps) =
        length (filter (\<lambda>p. isPositivePrediction (Prediction.classification p)
                               \<and> \<not> isPositiveGroundTruth (groundTruth p)) ps)
   \<and> ConfusionMatrix.trueNegatives (calculateConfusionMatrix ps) =
        length (filter (\<lambda>p. \<not> isPositivePrediction (Prediction.classification p)
                               \<and> \<not> isPositiveGroundTruth (groundTruth p)) ps)
   \<and> ConfusionMatrix.falseNegatives (calculateConfusionMatrix ps) =
        length (filter (\<lambda>p. \<not> isPositivePrediction (Prediction.classification p)
                               \<and> isPositiveGroundTruth (groundTruth p)) ps)
   \<and> ConfusionMatrix.truePositives (calculateConfusionMatrix ps)
       + ConfusionMatrix.falsePositives (calculateConfusionMatrix ps)
       + ConfusionMatrix.trueNegatives (calculateConfusionMatrix ps)
       + ConfusionMatrix.falseNegatives (calculateConfusionMatrix ps) = length ps
   \<and> calculateConfusionMatrix [] =
        \<lparr>ConfusionMatrix.truePositives = 0, falsePositives = 0, trueNegatives = 0,
         falseNegatives = 0\<rparr>
   \<and> (isPositivePrediction c \<longleftrightarrow> c = ''Malignant'' \<or> c = ''Infection'')
   \<and> (isPositiveGroundTruth g \<longleftrightarrow> g = Some ''Malignant'' \<or> g = Some ''Infection'')"
proof -
  have "isPositivePrediction c \<longleftrightarrow> c = ''Malignant'' \<or> c = ''Infection''"
    by (simp add: isPositivePrediction_def POSITIVE_CLASSIFICATIONS_def)
  moreover have "isPositiveGroundTruth g \<longleftrightarrow> g = Some ''Malignant'' \<or> g = Some ''Infection''"
    by (cases g) (simp_all add: isPositiveGroundTruth_def POSITIVE_CLASSIFICATIONS_def)
  moreover have "calculateConfusionMatrix [] =
        \<lparr>ConfusionMatrix.truePositives = 0, falsePositives = 0, trueNegatives = 0,
         falseNegatives = 0\<rparr>"
    by (simp add: calculateConfusionMatrix_def)
  ultimately show ?thesis
    by (simp add: confusion_matrix_counts four_way_split)
qed

text \<open>
  An instance with one record in \<open>tp\<close>, \<open>fp\<close> and \<open>fn\<close> and two in \<open>tn\<close>, one of
  them with labels outside the vocabulary.
\<close>

theorem confusion_matrix_truth_table_witness:
  "calculateConfusionMatrix
     [\<lparr>Prediction.classification = ''Malignant'', groundTruth = Some ''Malignant'', confidence = 90\<rparr>,
      \<lparr>Prediction.classification = ''Infection'', groundTruth = Some ''Benign'', confidence = 70\<rparr>,
      \<lparr>Prediction.classification = ''Benign'', groundTruth = Some ''Benign'', confidence = 80\<rparr>,
      \<lparr>Prediction.classification = ''Rash'', groundTruth = Some ''Infection'', confidence = 60\<rparr>,
      \<lparr>Prediction.classification = ''Mole'', groundTruth = Some ''Freckle'', confidence = 50\<rparr>]
   = \<lparr>ConfusionMatrix.truePositives = 1, falsePositives = 1, trueNegatives = 2,
      falseNegatives = 1\<rparr>"
  using confusion_matrix_truth_table
    [of "[\<lparr>Prediction.classification = ''Malignant'', groundTruth = Some ''Malignant'', confidence = 90\<rparr>,
      \<lparr>Prediction.classification = ''Infection'', groundTruth = Some ''Benign'', confidence = 70\<rparr>,
      \<lparr>Prediction.classification = ''Benign'', groundTruth = Some ''Benign'', confidence = 80\<rparr>,
      \<lparr>Prediction.classification = ''Rash'', groundTruth = Some ''Infection'', confidence = 60\<rparr>,
      \<lparr>Prediction.classification = ''Mole'', groundTruth = Some ''Freckle'', confidence = 50\<rparr>]"]
  by (simp add: calculateConfusionMatrix_def count_prediction_def isPositivePrediction_def
      isPositiveGroundTruth_def POSITIVE_CLASSIFICATIONS_def)

section \<open>Brier score (C6, C9)\<close>

text \<open>
  Claim C6. For every non-empty list, \<^verbatim>\<open>calculateBrierScore\<close> returns the mean over all
  records of \<open>(confidence / 100 - outcome)\<^sup>2\<close>, where \<open>outcome\<close> is 1 if the classification
  equals the ground truth and 0 otherwise; for the empty list it returns 0.
\<close>

theorem brier_is_mean_squared_error:
  "(ps \<noteq> [] \<longrightarrow>
      calculateBrierScore ps =
        Some ((\<Sum>p\<leftarrow>ps. (Prediction.confidence p / 100
                 - (if Some (Prediction.classification p) = groundTruth p then 1 else 0)) ^ 2)
              / real (length ps)))
   \<and> calculateBrierScore [] = Some 0"
proof (intro conjI impI)
  assume "ps \<noteq> []"
  then have "calculateBrierScore ps = Some (sum_list (map squared_error ps) / real (length ps))"
    by (rule brier_nonempty)
  then show "calculateBrierScore ps =
        Some ((\<Sum>p\<leftarrow>ps. (Prediction.confidence p / 100
                 - (if Some (Prediction.classification p) = groundTruth p then 1 else 0)) ^ 2)
              / real (length ps))"
    by (simp add: squared_error_def Let_def cong: map_cong)
next
  show "calculateBrierScore [] = Some 0"
    by (simp add: calculateBrierScore_def)
qed

text \<open>
  An instance: a correct prediction at confidence 90 and a wrong one at confidence 70
  give \<open>(0.01 + 0.49) / 2\<close>.
\<close>

theorem brier_is_mean_squared_error_witness:
  "[\<lparr>Prediction.classification = ''Malignant'', groundTruth = Some ''Malignant'', confidence = 90\<rparr>,
      \<lparr>Prediction.classification = ''Infection'', groundTruth = Some ''Benign'', confidence = 70\<rparr>] \<noteq> []
   \<and> calculateBrierScore
     [\<lparr>Prediction.classification = ''Malignant'', groundTruth = Some ''Malignant'', confidence = 90\<rparr>,
      \<lparr>Prediction.classification = ''Infection'', groundTruth = Some ''Benign'', confidence = 70\<rparr>]
     = Some (1 / 4)"
  using brier_is_mean_squared_error
    [of "[\<lparr>Prediction.classification = ''Malignant'', groundTruth = Some ''Malignant'', confidence = 90\<rparr>,
      \<lparr>Prediction.classification = ''Infection'', groundTruth = Some ''Benign'', confidence = 70\<rparr>]"]
  by (simp add: power2_eq_square)

text \<open>
  Claim C9. If every record has its confidence in \<open>[0, 100]\<close>, then
  \<^verbatim>\<open>calculateBrierScore\<close> returns a number between 0 and 1.
\<close>

theorem brier_between_0_and_1:
  assumes "\<forall>p\<in>set ps. 0 \<le> Prediction.confidence p \<and> Prediction.confidence p \<le> 100"
  shows "\<exists>b. calculateBrierScore ps = Some b \<and> 0 \<le> b \<and> b \<le> 1"
proof (cases "ps = []")
  case True
  then show ?thesis by (simp add: calculateBrierScore_def)
next
  case False
  have "\<forall>p\<in>set ps. 0 \<le> squared_error p \<and> squared_error p \<le> 1"
    using assms squared_error_bounds by blast
  then have s: "0 \<le> sum_list (map squared_error ps)"
    "sum_list (map squared_error ps) \<le> real (length ps)"
    using sum_list_bounds [of ps squared_error] by simp_all
  have n: "0 < real (length ps)" using False by simp
  have "0 \<le> sum_list (map squared_error ps) / real (length ps)"
    using s(1) n by simp
  moreover have "sum_list (map squared_error ps) / real (length ps) \<le> 1"
    using s(2) n by (simp add: divide_le_eq)
  ultimately show ?thesis
    using False by (simp add: brier_nonempty)
qed

text \<open>
  An instance with confidences at both ends of the range.
\<close>

theorem brier_between_0_and_1_witness:
  "list_all (\<lambda>p. 0 \<le> Prediction.confidence p \<and> Prediction.confidence p \<le> 100)
     [\<lparr>Prediction.classification = ''Rash'', groundTruth = Some ''Rash'', confidence = 100\<rparr>,
      \<lparr>Prediction.classification = ''Benign'', groundTruth = Some ''Malignant'', confidence = 100\<rparr>,
      \<lparr>Prediction.classification = ''Benign'', groundTruth = Some ''Benign'', confidence = 0\<rparr>]
   \<and> calculateBrierScore
     [\<lparr>Prediction.classification = ''Rash'', groundTruth = Some ''Rash'', confidence = 100\<rparr>,
      \<lparr>Prediction.classification = ''Benign'', groundTruth = Some ''Malignant'', confidence = 100\<rparr>,
      \<lparr>Prediction.classification = ''Benign'', groundTruth = Some ''Benign'', confidence = 0\<rparr>]
     = Some (2 / 3)"
  using brier_between_0_and_1
    [of "[\<lparr>Prediction.classification = ''Rash'', groundTruth = Some ''Rash'', confidence = 100\<rparr>,
      \<lparr>Prediction.classification = ''Benign'', groundTruth = Some ''Malignant'', confidence = 100\<rparr>,
      \<lparr>Prediction.classification = ''Benign'', groundTruth = Some ''Benign'', confidence = 0\<rparr>]"]
  by (simp add: calculateBrierScore_def squared_error_def js_div_def)

section \<open>Per-group metrics (C5, C8, C10)\<close>

text \<open>
  Claim C5. For every input list, \<^verbatim>\<open>calculateFairnessMetricsPerGroup\<close> returns a list of
  metrics and
  \<^item> ignores the records whose ground-truth label is missing or empty: the result is that
    of the input without them;
  \<^item> has one record of metrics for each group key that occurs among the labelled
    records, with no key twice;
  \<^item> counts in \<open>totalPredictions\<close> of a group exactly the labelled records with that
    group key, which is at least one record, and the counts of all groups add up to the
    number of labelled records;
  \<^item> puts a labelled record whose \<open>fitzpatrickType\<close> is missing (or empty) under the
    key \<open>Unknown\<close>, and that group is in the output.
\<close>

theorem groups_partition_labelled_records:
  "\<exists>ms. calculateFairnessMetricsPerGroup xs = Some ms
     \<and> calculateFairnessMetricsPerGroup (filter has_ground_truth xs) = Some ms
     \<and> distinct (map FairnessMetrics.fitzpatrickType ms)
     \<and> set (map FairnessMetrics.fitzpatrickType ms)
         = fitzType_of ` {x \<in> set xs. has_ground_truth x}
     \<and> (\<forall>m\<in>set ms.
           totalPredictions m
             = length (filter (\<lambda>x. has_ground_truth x
                                  \<and> fitzType_of x = FairnessMetrics.fitzpatrickType m) xs)
           \<and> 1 \<le> totalPredictions m)
     \<and> sum_list (map totalPredictions ms) = length (filter has_ground_truth xs)
     \<and> (\<forall>x\<in>set xs. has_ground_truth x \<and> falsy (Patient.fitzpatrickType (patient x))
           \<longrightarrow> fitzType_of x = ''Unknown''
               \<and> (\<exists>m\<in>set ms. FairnessMetrics.fitzpatrickType m = ''Unknown''))"
proof -
  obtain g ms where r: "calculateFairnessMetricsPerGroup xs = Some ms"
      "distinct (map fst g)"
      "list_all2 (\<lambda>e m. group_metrics e = Some m) g ms"
      "\<forall>e\<in>set g. snd e \<noteq> []
            \<and> snd e = filter (\<lambda>x. has_ground_truth x \<and> fitzType_of x = fst e) xs"
      "fst ` set g = fitzType_of ` {x \<in> set xs. has_ground_truth x}"
    using fairness_metrics_result [of xs] by (elim exE conjE)
  have key: "FairnessMetrics.fitzpatrickType m = fst e"
    and total: "totalPredictions m = length (snd e)"
    if "group_metrics e = Some m" for e m
    using that group_metrics_fields(1,2) [of "fst e" "snd e" m] by simp_all
  have keys: "map FairnessMetrics.fitzpatrickType ms = map fst g"
    using r(3) key by (rule list_all2_map_eq)
  have totals: "map totalPredictions ms = map (\<lambda>e. length (snd e)) g"
    using r(3) total by (rule list_all2_map_eq)
  have same: "calculateFairnessMetricsPerGroup (filter has_ground_truth xs) = Some ms"
    using r(1) by (simp add: calculateFairnessMetricsPerGroup_def group_items_filter)
  have each: "totalPredictions m
             = length (filter (\<lambda>x. has_ground_truth x
                                  \<and> fitzType_of x = FairnessMetrics.fitzpatrickType m) xs)
           \<and> 1 \<le> totalPredictions m" if mem: "m \<in> set ms" for m
  proof -
    obtain e where e: "e \<in> set g" "group_metrics e = Some m"
      using list_all2_in_right [OF r(3) mem] by blast
    have ne: "snd e \<noteq> []"
      and b: "snd e = filter (\<lambda>x. has_ground_truth x \<and> fitzType_of x = fst e) xs"
      using r(4) e(1) by blast+
    have "0 < length (snd e)" using ne by simp
    then have "1 \<le> totalPredictions m" using total [OF e(2)] by linarith
    moreover have "totalPredictions m
             = length (filter (\<lambda>x. has_ground_truth x
                                  \<and> fitzType_of x = FairnessMetrics.fitzpatrickType m) xs)"
      using b key [OF e(2)] total [OF e(2)] by simp
    ultimately show ?thesis by simp
  qed
  have "sum_list (map totalPredictions ms) = sum_list (map (\<lambda>e. length (snd e)) g)"
    by (simp only: totals)
  also have "map (\<lambda>e. length (snd e)) g
          = map (\<lambda>k. length (filter (\<lambda>x. has_ground_truth x \<and> fitzType_of x = k) xs)) (map fst g)"
    using r(4) by (simp add: comp_def)
  also have "sum_list (map (\<lambda>k. length (filter (\<lambda>x. has_ground_truth x \<and> fitzType_of x = k) xs))
                 (map fst g))
          = length (filter (\<lambda>x. has_ground_truth x \<and> fitzType_of x \<in> set (map fst g)) xs)"
    using r(2) by (rule count_by_distinct_keys)
  also have "\<dots> = length (filter has_ground_truth xs)"
  proof -
    have "\<And>x. x \<in> set xs \<Longrightarrow>
            (has_ground_truth x \<and> fitzType_of x \<in> set (map fst g)) = has_ground_truth x"
      using r(5) by auto
    then show ?thesis
      by (simp cong: filter_cong)
  qed
  finally have sum: "sum_list (map totalPredictions ms) = length (filter has_ground_truth xs)" .
  have keyset: "set (map FairnessMetrics.fitzpatrickType ms)
         = fitzType_of ` {x \<in> set xs. has_ground_truth x}"
    using keys r(5) by simp
  have unknown: "fitzType_of x = ''Unknown''
               \<and> (\<exists>m\<in>set ms. FairnessMetrics.fitzpatrickType m = ''Unknown'')"
    if "x \<in> set xs" "has_ground_truth x" "falsy (Patient.fitzpatrickType (patient x))" for x
  proof -
    have u: "fitzType_of x = ''Unknown''"
      using that(3) by (auto simp: fitzType_of_def falsy_def or_default_def split: option.splits)
    have "fitzType_of x \<in> set (map FairnessMetrics.fitzpatrickType ms)"
      using keyset that(1,2) by blast
    with u show ?thesis by auto
  qed
  have d: "distinct (map FairnessMetrics.fitzpatrickType ms)"
    using keys r(2) by simp
  show ?thesis
  proof (intro exI [of _ ms] conjI ballI impI)
    show "calculateFairnessMetricsPerGroup xs = Some ms" by (rule r(1))
    show "calculateFairnessMetricsPerGroup (filter has_ground_truth xs) = Some ms" by (rule same)
    show "distinct (map FairnessMetrics.fitzpatrickType ms)" by (rule d)
    show "set (map FairnessMetrics.fitzpatrickType ms)
         = fitzType_of ` {x \<in> set xs. has_ground_truth x}" by (rule keyset)
    show "sum_list (map totalPredictions ms) = length (filter has_ground_truth xs)" by (rule sum)
  next
    fix m assume "m \<in> set ms"
    from each [OF this] show "totalPredictions m
             = length (filter (\<lambda>x. has_ground_truth x
                                  \<and> fitzType_of x = FairnessMetrics.fitzpatrickType m) xs)"
      and "1 \<le> totalPredictions m" by blast+
  next
    fix x assume "x \<in> set xs"
      and "has_ground_truth x \<and> falsy (Patient.fitzpatrickType (patient x))"
    then show "fitzType_of x = ''Unknown''"
      and "\<exists>m\<in>set ms. FairnessMetrics.fitzpatrickType m = ''Unknown''"
      using unknown by blast+
  qed
qed

text \<open>
  An instance: of six records two have no ground truth (one missing, one empty); the other
  four fall into the group \<open>I\<close> and, for a missing and an empty skin type, \<open>Unknown\<close>.
\<close>

theorem groups_partition_labelled_records_witness:
  "map_option (map (\<lambda>m. (FairnessMetrics.fitzpatrickType m, totalPredictions m)))
     (calculateFairnessMetricsPerGroup
        [example_record (Some ''I'') ''Malignant'' 90 (Some ''Malignant''),
         example_record None ''Benign'' 50 (Some ''Malignant''),
         example_record (Some ''I'') ''Benign'' 50 None,
         example_record (Some '''') ''Rash'' 80 (Some ''Rash''),
         example_record (Some ''I'') ''Infection'' 70 (Some ''Benign''),
         example_record (Some ''II'') ''Rash'' 10 (Some '''')])
   = Some [(''I'', 2), (''Unknown'', 2)]"
  using groups_partition_labelled_records
    [of "[example_record (Some ''I'') ''Malignant'' 90 (Some ''Malignant''),
         example_record None ''Benign'' 50 (Some ''Malignant''),
         example_record (Some ''I'') ''Benign'' 50 None,
         example_record (Some '''') ''Rash'' 80 (Some ''Rash''),
         example_record (Some ''I'') ''Infection'' 70 (Some ''Benign''),
         example_record (Some ''II'') ''Rash'' 10 (Some '''')]"]
  by (simp add: eval_defs)

text \<open>
  Claim C8. A metric whose denominator is zero is exactly 0, and not \<open>None\<close> (which
  stands for \<^verbatim>\<open>NaN\<close>, an infinity or a thrown error): \<open>positiveRate\<close> and
  \<open>accuracyAtConfidence\<close> for \<open>n = 0\<close>, \<open>truePositiveRate\<close> for \<open>tp + fn = 0\<close>,
  \<open>falsePositiveRate\<close> for \<open>fp + tn = 0\<close>, \<open>precision\<close> for \<open>tp + fp = 0\<close>,
  \<open>f1Score\<close> for \<open>precision + recall = 0\<close>, and the Brier score of the empty list.
  Moreover \<^verbatim>\<open>calculateFairnessMetricsPerGroup\<close> returns for every input, and in each
  record it returns the rates with a zero denominator are 0.
\<close>

theorem zero_denominator_gives_zero:
  "positiveRate_of p 0 = Some 0
   \<and> (tp + fn = 0 \<longrightarrow> truePositiveRate_of tp fn = Some 0)
   \<and> (fp + tn = 0 \<longrightarrow> falsePositiveRate_of fp tn = Some 0)
   \<and> (tp + fp = 0 \<longrightarrow> precision_of tp fp = Some 0)
   \<and> (pr + rc = 0 \<longrightarrow> f1Score_of pr rc = Some 0)
   \<and> accuracyAtConfidence_of c 0 = Some 0
   \<and> calculateBrierScore [] = Some 0
   \<and> (\<exists>ms. calculateFairnessMetricsPerGroup xs = Some ms
         \<and> (\<forall>m\<in>set ms.
               (FairnessMetrics.truePositives m + FairnessMetrics.falseNegatives m = 0
                  \<longrightarrow> truePositiveRate m = 0)
               \<and> (FairnessMetrics.falsePositives m + FairnessMetrics.trueNegatives m = 0
                  \<longrightarrow> falsePositiveRate m = 0)
               \<and> (FairnessMetrics.truePositives m + FairnessMetrics.falsePositives m = 0
                  \<longrightarrow> precision m = 0)
               \<and> (precision m + recall m = 0 \<longrightarrow> f1Score m = 0)))"
proof -
  have helpers: "positiveRate_of p 0 = Some 0"
    "tp + fn = 0 \<longrightarrow> truePositiveRate_of tp fn = Some 0"
    "fp + tn = 0 \<longrightarrow> falsePositiveRate_of fp tn = Some 0"
    "tp + fp = 0 \<longrightarrow> precision_of tp fp = Some 0"
    "pr + rc = 0 \<longrightarrow> f1Score_of pr rc = Some 0"
    "accuracyAtConfidence_of c 0 = Some 0"
    "calculateBrierScore [] = Some 0"
    by (simp_all add: positiveRate_of_def truePositiveRate_of_def falsePositiveRate_of_def
        precision_of_def f1Score_of_def accuracyAtConfidence_of_def calculateBrierScore_def)
  obtain g ms where r: "calculateFairnessMetricsPerGroup xs = Some ms"
      "list_all2 (\<lambda>e m. group_metrics e = Some m) g ms"
    using fairness_metrics_result [of xs] by (elim exE conjE)
  have "(FairnessMetrics.truePositives m + FairnessMetrics.falseNegatives m = 0
                  \<longrightarrow> truePositiveRate m = 0)
               \<and> (FairnessMetrics.falsePositives m + FairnessMetrics.trueNegatives m = 0
                  \<longrightarrow> falsePositiveRate m = 0)
               \<and> (FairnessMetrics.truePositives m + FairnessMetrics.falsePositives m = 0
                  \<longrightarrow> precision m = 0)
               \<and> (precision m + recall m = 0 \<longrightarrow> f1Score m = 0)" if mem: "m \<in> set ms" for m
  proof -
    obtain e where e: "group_metrics (fst e, snd e) = Some m"
      using list_all2_in_right [OF r(2) mem] by auto
    have tpr: "FairnessMetrics.truePositives m + FairnessMetrics.falseNegatives m = 0
                  \<longrightarrow> truePositiveRate m = 0"
    proof
      assume "FairnessMetrics.truePositives m + FairnessMetrics.falseNegatives m = 0"
      then have "truePositiveRate_of (FairnessMetrics.truePositives m)
                   (FairnessMetrics.falseNegatives m) = Some 0"
        by (simp add: truePositiveRate_of_def)
      with group_metrics_fields(9) [OF e] show "truePositiveRate m = 0" by simp
    qed
    have fpr: "FairnessMetrics.falsePositives m + FairnessMetrics.trueNegatives m = 0
                  \<longrightarrow> falsePositiveRate m = 0"
    proof
      assume "FairnessMetrics.falsePositives m + FairnessMetrics.trueNegatives m = 0"
      then have "falsePositiveRate_of (FairnessMetrics.falsePositives m)
                   (FairnessMetrics.trueNegatives m) = Some 0"
        by (simp add: falsePositiveRate_of_def)
      with group_metrics_fields(10) [OF e] show "falsePositiveRate m = 0" by simp
    qed
    have prec: "FairnessMetrics.truePositives m + FairnessMetrics.falsePositives m = 0
                  \<longrightarrow> precision m = 0"
    proof
      assume "FairnessMetrics.truePositives m + FairnessMetrics.falsePositives m = 0"
      then have "precision_of (FairnessMetrics.truePositives m)
                   (FairnessMetrics.falsePositives m) = Some 0"
        by (simp add: precision_of_def)
      with group_metrics_fields(11) [OF e] show "precision m = 0" by simp
    qed
    have f1: "precision m + recall m = 0 \<longrightarrow> f1Score m = 0"
    proof
      assume "precision m + recall m = 0"
      then have "f1Score_of (precision m) (recall m) = Some 0"
        by (simp add: f1Score_of_def)
      with group_metrics_fields(13) [OF e] show "f1Score m = 0" by simp
    qed
    from tpr fpr prec f1 show ?thesis by (intro conjI)
  qed
  then have all: "\<forall>m\<in>set ms.
               (FairnessMetrics.truePositives m + FairnessMetrics.falseNegatives m = 0
                  \<longrightarrow> truePositiveRate m = 0)
               \<and> (FairnessMetrics.falsePositives m + FairnessMetrics.trueNegatives m = 0
                  \<longrightarrow> falsePositiveRate m = 0)
               \<and> (FairnessMetrics.truePositives m + FairnessMetrics.falsePositives m = 0
                  \<longrightarrow> precision m = 0)
               \<and> (precision m + recall m = 0 \<longrightarrow> f1Score m = 0)"
    by (rule ballI)
  show ?thesis
    apply (intro conjI)
           apply (rule helpers(1))
          apply (rule helpers(2))
         apply (rule helpers(3))
        apply (rule helpers(4))
       apply (rule helpers(5))
      apply (rule helpers(6))
     apply (rule helpers(7))
    apply (rule exI [of _ ms])
    apply (rule conjI)
     apply (rule r(1))
    apply (rule all)
    done
qed

text \<open>
  An instance: the group \<open>I\<close> has only true negatives (\<open>tp + fn = 0\<close>,
  \<open>tp + fp = 0\<close>, \<open>precision + recall = 0\<close>), the group \<open>II\<close> only a true positive
  (\<open>fp + tn = 0\<close>).
\<close>

theorem zero_denominator_gives_zero_witness:
  "(0::nat) + 0 = 0 \<and> (0::real) + 0 = 0
   \<and> truePositiveRate_of 0 0 = Some 0 \<and> falsePositiveRate_of 0 0 = Some 0
   \<and> precision_of 0 0 = Some 0 \<and> f1Score_of 0 0 = Some 0
   \<and> map_option (map (\<lambda>m. (FairnessMetrics.truePositives m, FairnessMetrics.falsePositives m,
                             FairnessMetrics.trueNegatives m, FairnessMetrics.falseNegatives m,
                             truePositiveRate m, falsePositiveRate m, precision m, f1Score m)))
       (calculateFairnessMetricsPerGroup
          [example_record (Some ''I'') ''Benign'' 80 (Some ''Benign''),
      example_record (Some ''I'') ''Rash'' 60 (Some ''Benign''),
      example_record (Some ''II'') ''Malignant'' 90 (Some ''Malignant'')])
     = Some [(0, 0, 2, 0, 0, 0, 0, 0), (1, 0, 0, 0, 1, 0, 1, 1)]"
  using zero_denominator_gives_zero
    [of 0 0 0 0 0 0 0 0
        "[example_record (Some ''I'') ''Benign'' 80 (Some ''Benign''),
      example_record (Some ''I'') ''Rash'' 60 (Some ''Benign''),
      example_record (Some ''II'') ''Malignant'' 90 (Some ''Malignant'')]"]
  by (simp add: eval_defs)

text \<open>
  Claim C10. Every record returned by \<^verbatim>\<open>calculateFairnessMetricsPerGroup\<close> has
  \<open>positivePredictions = truePositives + falsePositives\<close>, and so its \<open>positiveRate\<close> is
  \<open>(truePositives + falsePositives) / totalPredictions\<close>, with \<open>totalPredictions > 0\<close>.
\<close>

theorem positive_predictions_are_tp_plus_fp:
  "\<exists>ms. calculateFairnessMetricsPerGroup xs = Some ms
     \<and> (\<forall>m\<in>set ms.
           positivePredictions m = FairnessMetrics.truePositives m + FairnessMetrics.falsePositives m
           \<and> 0 < totalPredictions m
           \<and> positiveRate m
               = real (FairnessMetrics.truePositives m + FairnessMetrics.falsePositives m)
                 / real (totalPredictions m))"
proof -
  obtain g ms where r: "calculateFairnessMetricsPerGroup xs = Some ms"
      "list_all2 (\<lambda>e m. group_metrics e = Some m) g ms"
      "\<forall>e\<in>set g. snd e \<noteq> []
            \<and> snd e = filter (\<lambda>x. has_ground_truth x \<and> fitzType_of x = fst e) xs"
    using fairness_metrics_result [of xs] by (elim exE conjE)
  have "positivePredictions m = FairnessMetrics.truePositives m + FairnessMetrics.falsePositives m
           \<and> 0 < totalPredictions m
           \<and> positiveRate m
               = real (FairnessMetrics.truePositives m + FairnessMetrics.falsePositives m)
                 / real (totalPredictions m)" if mem: "m \<in> set ms" for m
  proof -
    obtain e where e: "e \<in> set g" "group_metrics (fst e, snd e) = Some m"
      using list_all2_in_right [OF r(2) mem] by auto
    have ne: "snd e \<noteq> []" using r(3) e(1) by blast
    have split: "positivePredictions m
                   = FairnessMetrics.truePositives m + FairnessMetrics.falsePositives m"
      using e(2) by (rule group_metrics_positive_split)
    have total: "0 < totalPredictions m"
      using group_metrics_fields(2) [OF e(2)] ne by simp
    have "positiveRate_of (positivePredictions m) (totalPredictions m) = Some (positiveRate m)"
      using e(2) by (rule group_metrics_fields(8))
    then have "positiveRate m = real (positivePredictions m) / real (totalPredictions m)"
      using total by (simp add: positiveRate_of_eq)
    with split total show ?thesis by simp
  qed
  with r(1) show ?thesis by blast
qed

text \<open>
  An instance with two groups.
\<close>

theorem positive_predictions_are_tp_plus_fp_witness:
  "map_option (map (\<lambda>m. (positivePredictions m, FairnessMetrics.truePositives m,
                           FairnessMetrics.falsePositives m, totalPredictions m, positiveRate m)))
       (calculateFairnessMetricsPerGroup
          [example_record (Some ''III'') ''Malignant'' 90 (Some ''Malignant''),
      example_record (Some ''III'') ''Infection'' 70 (Some ''Benign''),
      example_record (Some ''III'') ''Benign'' 80 (Some ''Benign''),
      example_record (Some ''IV'') ''Rash'' 60 (Some ''Infection'')])
     = Some [(2, 1, 1, 3, 2 / 3), (0, 0, 0, 1, 0)]"
  using positive_predictions_are_tp_plus_fp
    [of "[example_record (Some ''III'') ''Malignant'' 90 (Some ''Malignant''),
      example_record (Some ''III'') ''Infection'' 70 (Some ''Benign''),
      example_record (Some ''III'') ''Benign'' 80 (Some ''Benign''),
      example_record (Some ''IV'') ''Rash'' 60 (Some ''Infection'')]"]
  by (simp add: eval_defs)

section \<open>Disparity (C1, C2, C3, C7)\<close>

text \<open>
  Claim C7. For the empty metrics list, \<^verbatim>\<open>calculateDisparityMetrics\<close> returns the
  summary whose four numbers are 0 and whose three alerts are false.
\<close>

theorem empty_metrics_all_zero:
  "calculateDisparityMetrics [] =
     Some \<lparr>overallDisparityScore = 0, demographicParityGap = 0, equalOpportunityGap = 0,
           calibrationGap = 0, parityAlert = False, opportunityAlert = False,
           calibrationAlert = False\<rparr>"
  by (simp add: calculateDisparityMetrics_def)

text \<open>
  Claim C3. For every non-empty metrics list, \<^verbatim>\<open>calculateDisparityMetrics\<close> returns
  \<open>demographicParityGap\<close>, \<open>equalOpportunityGap\<close> and \<open>calibrationGap\<close> as the maximum
  minus the minimum of the groups' \<open>positiveRate\<close>, \<open>truePositiveRate\<close> and \<open>brierScore\<close>,
  and \<open>overallDisparityScore\<close> as the unweighted mean of the three gaps. On a list of
  one record all three gaps and the overall score are 0 and all three alerts are false.
\<close>

theorem gaps_are_max_minus_min:
  "(metrics \<noteq> [] \<longrightarrow>
      (\<exists>d. calculateDisparityMetrics metrics = Some d
         \<and> demographicParityGap d
             = Max (set (map positiveRate metrics)) - Min (set (map positiveRate metrics))
         \<and> equalOpportunityGap d
             = Max (set (map truePositiveRate metrics)) - Min (set (map truePositiveRate metrics))
         \<and> calibrationGap d
             = Max (set (map brierScore metrics)) - Min (set (map brierScore metrics))
         \<and> overallDisparityScore d
             = (demographicParityGap d + equalOpportunityGap d + calibrationGap d) / 3))
   \<and> calculateDisparityMetrics [m] =
        Some \<lparr>overallDisparityScore = 0, demographicParityGap = 0, equalOpportunityGap = 0,
              calibrationGap = 0, parityAlert = False, opportunityAlert = False,
              calibrationAlert = False\<rparr>"
proof (intro conjI impI)
  assume "metrics \<noteq> []"
  then show "\<exists>d. calculateDisparityMetrics metrics = Some d
         \<and> demographicParityGap d
             = Max (set (map positiveRate metrics)) - Min (set (map positiveRate metrics))
         \<and> equalOpportunityGap d
             = Max (set (map truePositiveRate metrics)) - Min (set (map truePositiveRate metrics))
         \<and> calibrationGap d
             = Max (set (map brierScore metrics)) - Min (set (map brierScore metrics))
         \<and> overallDisparityScore d
             = (demographicParityGap d + equalOpportunityGap d + calibrationGap d) / 3"
    by (simp add: disparity_nonempty)
next
  show "calculateDisparityMetrics [m] =
        Some \<lparr>overallDisparityScore = 0, demographicParityGap = 0, equalOpportunityGap = 0,
              calibrationGap = 0, parityAlert = False, opportunityAlert = False,
              calibrationAlert = False\<rparr>"
    by (simp add: disparity_nonempty PARITY_THRESHOLD_def OPPORTUNITY_THRESHOLD_def
        CALIBRATION_THRESHOLD_def)
qed

text \<open>
  An instance: groups with positive rates 0.40 and 0.10 and equal true-positive rates and
  Brier scores give the gap 0.30 and the overall score \<open>(0.30 + 0 + 0) / 3\<close>.
\<close>

theorem gaps_are_max_minus_min_witness:
  "[example_group ''I'' 10 4, example_group ''VI'' 10 1] \<noteq> []
   \<and> calculateDisparityMetrics [example_group ''I'' 10 4, example_group ''VI'' 10 1]
     = Some \<lparr>overallDisparityScore = 1 / 10, demographicParityGap = 3 / 10,
             equalOpportunityGap = 0, calibrationGap = 0, parityAlert = True,
             opportunityAlert = False, calibrationAlert = False\<rparr>"
  using gaps_are_max_minus_min
    [of "[example_group ''I'' 10 4, example_group ''VI'' 10 1]" "example_group ''I'' 10 4"]
  by (simp add: calculateDisparityMetrics_def Math_max_def Math_min_def PARITY_THRESHOLD_def
      OPPORTUNITY_THRESHOLD_def CALIBRATION_THRESHOLD_def)

text \<open>
  Claim C2. For every metrics list, \<open>parityAlert\<close> is true if and only if
  \<open>demographicParityGap > 0.15\<close>, \<open>opportunityAlert\<close> if and only if
  \<open>equalOpportunityGap > 0.15\<close>, and \<open>calibrationAlert\<close> if and only if
  \<open>calibrationGap > 0.10\<close>; at a gap equal to its threshold the alert is false.
\<close>

theorem alerts_iff_gap_above_threshold:
  "\<exists>d. calculateDisparityMetrics metrics = Some d
     \<and> (parityAlert d \<longleftrightarrow> demographicParityGap d > 15 / 100)
     \<and> (opportunityAlert d \<longleftrightarrow> equalOpportunityGap d > 15 / 100)
     \<and> (calibrationAlert d \<longleftrightarrow> calibrationGap d > 10 / 100)
     \<and> (demographicParityGap d = 15 / 100 \<longrightarrow> \<not> parityAlert d)
     \<and> (equalOpportunityGap d = 15 / 100 \<longrightarrow> \<not> opportunityAlert d)
     \<and> (calibrationGap d = 10 / 100 \<longrightarrow> \<not> calibrationAlert d)"
proof (cases "metrics = []")
  case True
  then show ?thesis by (simp add: calculateDisparityMetrics_def)
next
  case False
  then show ?thesis
    by (simp add: disparity_nonempty PARITY_THRESHOLD_def OPPORTUNITY_THRESHOLD_def
        CALIBRATION_THRESHOLD_def)
qed

text \<open>
  An instance with every gap exactly at its threshold.
\<close>

theorem alerts_iff_gap_above_threshold_witness:
  "calculateDisparityMetrics
      [\<lparr>FairnessMetrics.fitzpatrickType = ''II'', totalPredictions = 20, positivePredictions = 3,
        truePositives = 3, falsePositives = 0, trueNegatives = 0, falseNegatives = 17,
        positiveRate = 15 / 100, truePositiveRate = 15 / 100, falsePositiveRate = 0,
        precision = 1, recall = 15 / 100, f1Score = 6 / 23, brierScore = 35 / 100,
        averageConfidence = 50, accuracyAtConfidence = 15 / 100\<rparr>,
       \<lparr>FairnessMetrics.fitzpatrickType = ''V'', totalPredictions = 20, positivePredictions = 0,
        truePositives = 0, falsePositives = 0, trueNegatives = 0, falseNegatives = 20,
        positiveRate = 0, truePositiveRate = 0, falsePositiveRate = 0,
        precision = 0, recall = 0, f1Score = 0, brierScore = 25 / 100,
        averageConfidence = 50, accuracyAtConfidence = 0\<rparr>]
   = Some \<lparr>overallDisparityScore = 40 / 300, demographicParityGap = 15 / 100,
           equalOpportunityGap = 15 / 100, calibrationGap = 10 / 100, parityAlert = False,
           opportunityAlert = False, calibrationAlert = False\<rparr>"
  using alerts_iff_gap_above_threshold
    [of "[\<lparr>FairnessMetrics.fitzpatrickType = ''II'', totalPredictions = 20, positivePredictions = 3,
        truePositives = 3, falsePositives = 0, trueNegatives = 0, falseNegatives = 17,
        positiveRate = 15 / 100, truePositiveRate = 15 / 100, falsePositiveRate = 0,
        precision = 1, recall = 15 / 100, f1Score = 6 / 23, brierScore = 35 / 100,
        averageConfidence = 50, accuracyAtConfidence = 15 / 100\<rparr>,
       \<lparr>FairnessMetrics.fitzpatrickType = ''V'', totalPredictions = 20, positivePredictions = 0,
        truePositives = 0, falsePositives = 0, trueNegatives = 0, falseNegatives = 20,
        positiveRate = 0, truePositiveRate = 0, falsePositiveRate = 0,
        precision = 0, recall = 0, f1Score = 0, brierScore = 25 / 100,
        averageConfidence = 50, accuracyAtConfidence = 0\<rparr>]"]
  by (simp add: calculateDisparityMetrics_def Math_max_def Math_min_def PARITY_THRESHOLD_def
      OPPORTUNITY_THRESHOLD_def CALIBRATION_THRESHOLD_def)

text \<open>
  Claim C1, as stated: for a list of two groups, increasing one group's \<open>positiveRate\<close>
  while the other group is fixed never decreases \<open>demographicParityGap\<close>. This fails
  when the lower rate is raised: with the group \<open>I\<close> fixed at 0.40, raising the group
  \<open>VI\<close> from 0.10 to 0.20 takes the gap from 0.30 down to 0.20.
\<close>

theorem raising_lower_rate_narrows_gap:
  "positiveRate (example_group ''VI'' 10 1) < positiveRate (example_group ''VI'' 10 2)
   \<and> map_option demographicParityGap
        (calculateDisparityMetrics [example_group ''VI'' 10 1, example_group ''I'' 10 4])
       = Some (3 / 10)
   \<and> map_option demographicParityGap
        (calculateDisparityMetrics [example_group ''VI'' 10 2, example_group ''I'' 10 4])
       = Some (2 / 10)"
  by (simp add: calculateDisparityMetrics_def Math_max_def Math_min_def)

text \<open>
  Claim C1, amended: for a list of two groups, increasing the \<open>positiveRate\<close> of a
  group whose rate is at least the other group's, while the other group is fixed, never
  decreases \<open>demographicParityGap\<close> (in either order of the two groups in the list).
\<close>

theorem raising_higher_rate_never_narrows_gap:
  assumes "positiveRate b \<le> positiveRate a" and "positiveRate a \<le> positiveRate a'"
  shows "(\<exists>d d'. calculateDisparityMetrics [a, b] = Some d
            \<and> calculateDisparityMetrics [a', b] = Some d'
            \<and> demographicParityGap d \<le> demographicParityGap d')
       \<and> (\<exists>d d'. calculateDisparityMetrics [b, a] = Some d
            \<and> calculateDisparityMetrics [b, a'] = Some d'
            \<and> demographicParityGap d \<le> demographicParityGap d')"
  using assms by (simp add: disparity_nonempty)

text \<open>
  An instance: with the group \<open>VI\<close> fixed at 0.10, raising the group \<open>I\<close> from 0.40 to
  0.50 takes the gap from 0.30 to 0.40.
\<close>

theorem raising_higher_rate_never_narrows_gap_witness:
  "positiveRate (example_group ''VI'' 10 1) \<le> positiveRate (example_group ''I'' 10 4)
   \<and> positiveRate (example_group ''I'' 10 4) \<le> positiveRate (example_group ''I'' 10 5)
   \<and> map_option demographicParityGap
        (calculateDisparityMetrics [example_group ''I'' 10 4, example_group ''VI'' 10 1])
       = Some (3 / 10)
   \<and> map_option demographicParityGap
        (calculateDisparityMetrics [example_group ''I'' 10 5, example_group ''VI'' 10 1])
       = Some (4 / 10)"
  using raising_higher_rate_never_narrows_gap
    [of "example_group ''VI'' 10 1" "example_group ''I'' 10 4" "example_group ''I'' 10 5"]
  by (simp add: calculateDisparityMetrics_def Math_max_def Math_min_def)

end
